theory Spec2Isabelle
  imports Complex_Main "HOL-Library.Sublist"
begin

section \<open>The forwarding registry (pkg/virtual/framework/forwardingregistry/store.go)\<close>

text \<open>
  A shallow embedding of \<^verbatim>\<open>Store\<close> and its methods. Go strings are \<open>string\<close>s, a
  Go \<^verbatim>\<open>map[string]string\<close> is an association list of its entries, a nil-able
  map is an \<open>option\<close> of one, a returned Go \<^verbatim>\<open>error\<close> is the left summand of a
  sum, and a \<^verbatim>\<open>panic\<close> is an outcome of its own. The calls that leave the
  adapter (the dynamic client, the backoff sleep) act on an abstract world \<open>'w\<close> and
  are recorded, in the order they happen, in a trace. Pointer arguments (the options, the
  strategies) are values: a nil one is not among the inputs.
\<close>

subsection \<open>Resource coordinates and objects\<close>

text \<open>
  The coordinate types of package \<^verbatim>\<open>schema\<close>, and the method
  \<^verbatim>\<open>GroupVersionKind.GroupKind\<close>.
\<close>

datatype schema_GroupResource = MkGroupResource string string
datatype schema_GroupVersionResource = MkGroupVersionResource string string string
datatype schema_GroupKind = MkGroupKind string string
datatype schema_GroupVersionKind = MkGroupVersionKind string string string

fun GroupKind :: "schema_GroupVersionKind \<Rightarrow> schema_GroupKind" where
  "GroupKind (MkGroupVersionKind g v k) = MkGroupKind g k"

text \<open>
  \<^verbatim>\<open>unstructured.Unstructured\<close>: the attribute bag, reduced to the envelope
  fields the adapter reads; each field is named after its Go accessor. A nil label map
  and an empty one are both the empty list: the adapter only indexes the map.
\<close>

record Unstructured =
  GetName :: string
  GetNamespace :: string
  GetLabels :: "(string \<times> string) list"
  GetResourceVersion :: string
  GroupVersionKind :: schema_GroupVersionKind
  Object :: "(string \<times> string) list"

text \<open>
  \<^verbatim>\<open>runtime.Object\<close>, as far as the type assertion
  \<^verbatim>\<open>obj.(*unstructured.Unstructured)\<close> can tell values apart.
\<close>

datatype RuntimeObject = UnstructuredObject Unstructured | OtherObject string

text \<open>
  Indexing a Go map: a key that is absent yields the zero value of the value type, the
  empty string.
\<close>

definition mapIndex :: "(string \<times> string) list \<Rightarrow> string \<Rightarrow> string" where
  "mapIndex m k = (case map_of m k of None \<Rightarrow> [] | Some v \<Rightarrow> v)"

subsection \<open>Errors\<close>

text \<open>
  The errors the adapter builds or tells apart. \<open>StatusNotFound\<close> is what
  \<^verbatim>\<open>kerrors.NewNotFound\<close> returns, \<open>StatusInvalid\<close> what
  \<^verbatim>\<open>kerrors.NewInvalid\<close> returns, \<open>StatusConflict\<close> is a version conflict
  (the errors \<^verbatim>\<open>kerrors.IsConflict\<close> accepts); the two \<^verbatim>\<open>fmt.Errorf\<close>
  errors carry the value they print; \<open>OtherError\<close> is any other error of a
  collaborator.
\<close>

datatype error =
    StatusNotFound schema_GroupResource string
  | StatusInvalid schema_GroupKind string "string list"
  | StatusConflict schema_GroupResource string string
  | ErrNotUnstructured RuntimeObject
  | ErrNoNamespace schema_GroupVersionResource
  | OtherError string

definition NewNotFound :: "schema_GroupResource \<Rightarrow> string \<Rightarrow> error" where
  "NewNotFound qualifiedResource nm = StatusNotFound qualifiedResource nm"

definition NewInvalid :: "schema_GroupKind \<Rightarrow> string \<Rightarrow> string list \<Rightarrow> error" where
  "NewInvalid qualifiedKind nm errs = StatusInvalid qualifiedKind nm errs"

fun IsNotFound :: "error \<Rightarrow> bool" where
  "IsNotFound (StatusNotFound qr nm) = True"
| "IsNotFound e = False"

fun IsConflict :: "error \<Rightarrow> bool" where
  "IsConflict (StatusConflict qr nm msg) = True"
| "IsConflict e = False"

subsection \<open>The Label Scope: \<^verbatim>\<open>toExpression\<close> and \<^verbatim>\<open>matches\<close>\<close>

text \<open>
  \<^verbatim>\<open>fmt.Sprintf("%s=%s", k, v)\<close>.
\<close>

definition Sprintf_eq :: "string \<Rightarrow> string \<Rightarrow> string" where
  "Sprintf_eq k v = k @ ''='' @ v"

text \<open>
  The body of the \<^verbatim>\<open>for k, v := range labelSelect\<close> loop of
  \<^verbatim>\<open>toExpression\<close>. The list holds the entries in the order the range statement
  visits them, which Go leaves open: what is proved below holds for every order.
\<close>

fun toExpression_loop :: "(string \<times> string) list \<Rightarrow> string \<Rightarrow> string" where
  "toExpression_loop [] expr = expr"
| "toExpression_loop ((k, v) # rest) expr =
     toExpression_loop rest ((if expr \<noteq> [] then expr @ '','' else expr) @ Sprintf_eq k v)"

text \<open>
  \<^verbatim>\<open>len\<close> of a map that may be nil: a nil map has length 0.
\<close>

definition len_map :: "(string \<times> string) list option \<Rightarrow> nat" where
  "len_map m = (case m of None \<Rightarrow> 0 | Some kvs \<Rightarrow> length kvs)"

definition toExpression :: "(string \<times> string) list option \<Rightarrow> string" where
  "toExpression labelSelect =
     (if len_map labelSelect = 0 then []
      else toExpression_loop (case labelSelect of None \<Rightarrow> [] | Some kvs \<Rightarrow> kvs) [])"

text \<open>
  The loop of \<^verbatim>\<open>matches\<close>: the first entry whose value differs from the
  object's label ends it with false.
\<close>

fun matches_loop :: "(string \<times> string) list \<Rightarrow> Unstructured \<Rightarrow> bool" where
  "matches_loop [] obj = True"
| "matches_loop ((k, v) # rest) obj =
     (if mapIndex (GetLabels obj) k \<noteq> v then False else matches_loop rest obj)"

definition matches :: "(string \<times> string) list option \<Rightarrow> Unstructured \<Rightarrow> bool" where
  "matches labelSelector obj =
     (case labelSelector of None \<Rightarrow> True | Some kvs \<Rightarrow> matches_loop kvs obj)"

subsection \<open>Request context\<close>

text \<open>
  The adapter reads three things of a request's \<^verbatim>\<open>context.Context\<close>, each
  through an accessor of \<^verbatim>\<open>genericapirequest\<close>; a context is the record of
  what the three accessors return for it. \<^verbatim>\<open>RequestInfoFrom\<close> yields a pointer that
  may be nil, \<^verbatim>\<open>NamespaceFrom\<close> a value and a flag.
\<close>

record request_Cluster =
  Name :: string
  Wildcard :: bool

record RequestInfo =
  Verb :: string

record Context =
  ValidClusterFrom :: "error + request_Cluster"
  NamespaceFrom :: "string option"
  RequestInfoFrom :: "RequestInfo option"

text \<open>
  \<^verbatim>\<open>logicalcluster.Wildcard\<close>, the cluster name that stands for all logical
  clusters.
\<close>

definition logicalcluster_Wildcard :: string where
  "logicalcluster_Wildcard = ''*''"

subsection \<open>Options, strategies and the dynamic client\<close>

record GetOptions =
  GetOptions_ResourceVersion :: string

record UpdateOptions =
  DryRun :: "string list"
  FieldManager :: string

record ListOptions =
  LabelSelector :: string
  FieldSelector :: string
  ResourceVersion :: string

record internalversion_ListOptions =
  internal_LabelSelector :: "string option"
  internal_FieldSelector :: "string option"
  internal_ResourceVersion :: string

datatype watch_Interface = WatchStream nat

text \<open>
  A \<^verbatim>\<open>dynamic.ResourceInterface\<close> is the endpoint reached by
  \<^verbatim>\<open>Cluster(c).Resource(r)\<close>, narrowed by \<^verbatim>\<open>Namespace(ns)\<close> or not: the
  handle is the triple of coordinates it was built from.
\<close>

record ResourceInterface =
  ofCluster :: string
  ofResource :: schema_GroupVersionResource
  ofNamespace :: "string option"

text \<open>
  The shared \<^verbatim>\<open>dynamic.ClusterInterface\<close>: what each method of an endpoint does
  to the world behind it and what it returns. The client returns an object or an error,
  never both.
\<close>

record 'w ClusterInterface =
  clientGet :: "ResourceInterface \<Rightarrow> Context \<Rightarrow> string \<Rightarrow> GetOptions \<Rightarrow> string list
     \<Rightarrow> 'w \<Rightarrow> (error + Unstructured) \<times> 'w"
  clientUpdate :: "ResourceInterface \<Rightarrow> Context \<Rightarrow> Unstructured \<Rightarrow> UpdateOptions \<Rightarrow> string list
     \<Rightarrow> 'w \<Rightarrow> (error + Unstructured) \<times> 'w"
  clientList :: "ResourceInterface \<Rightarrow> Context \<Rightarrow> ListOptions
     \<Rightarrow> 'w \<Rightarrow> (error + Unstructured list) \<times> 'w"
  clientWatch :: "ResourceInterface \<Rightarrow> Context \<Rightarrow> ListOptions
     \<Rightarrow> 'w \<Rightarrow> (error + watch_Interface) \<times> 'w"

record RESTCreateStrategy =
  NamespaceScoped :: bool

text \<open>
  \<^verbatim>\<open>PrepareForUpdate\<close> changes its arguments in place: it returns the pair
  (obj, oldObj) as it leaves them. \<^verbatim>\<open>ValidateUpdate\<close> returns the
  \<^verbatim>\<open>field.ErrorList\<close>. The strategy hooks, the caller's transform and the
  caller's validation are functions of their arguments: they do not reach the backing
  store.
\<close>

record RESTUpdateStrategy =
  PrepareForUpdate :: "Context \<Rightarrow> Unstructured \<Rightarrow> Unstructured \<Rightarrow> Unstructured \<times> Unstructured"
  ValidateUpdate :: "Context \<Rightarrow> Unstructured \<Rightarrow> Unstructured \<Rightarrow> string list"

record UpdatedObjectInfo =
  UpdatedObject :: "Context \<Rightarrow> RuntimeObject \<Rightarrow> error + RuntimeObject"

type_synonym ValidateObjectFunc = "Context \<Rightarrow> RuntimeObject \<Rightarrow> error option"

type_synonym ValidateObjectUpdateFunc =
  "Context \<Rightarrow> RuntimeObject \<Rightarrow> RuntimeObject \<Rightarrow> error option"

text \<open>
  \<^verbatim>\<open>wait.Backoff\<close>: initial delay, multiplier, cap (in nanoseconds and as a
  ratio) and the maximum number of attempts.
\<close>

record wait_Backoff =
  Duration :: nat
  Factor :: rat
  Cap :: nat
  Steps :: nat

subsection \<open>The store, the world and the trace\<close>

text \<open>
  The fields of \<^verbatim>\<open>Store\<close> that the methods below read.
\<close>

record 'w Store =
  DefaultQualifiedResource :: schema_GroupResource
  CreateStrategy :: RESTCreateStrategy
  UpdateStrategy :: RESTUpdateStrategy
  resource :: schema_GroupVersionResource
  dynamicClusterClient :: "'w ClusterInterface"
  subResources :: "string list"
  patchConflictRetryBackoff :: wait_Backoff
  labelSelector :: "(string \<times> string) list option"

text \<open>
  What happens outside the adapter, in order: each call of the dynamic client with the
  endpoint, the argument that matters and the answer; the \<^verbatim>\<open>go\<close> statement of
  \<^verbatim>\<open>Watch\<close>; and each backoff sleep of the retry driver, with the number of the
  attempt it follows and the conflict that caused it.
\<close>

datatype event =
    CallGet ResourceInterface string "error + Unstructured"
  | CallUpdate ResourceInterface Unstructured "error + Unstructured"
  | CallList ResourceInterface ListOptions "error + Unstructured list"
  | CallWatch ResourceInterface ListOptions "error + watch_Interface"
  | GoStopWaiter
  | BackoffSleep nat error

record 'w state =
  world :: 'w
  trace :: "event list"

text \<open>
  The collaborators that are neither fields nor arguments: the generated conversion of
  list options, and what the world does while the adapter sleeps the \<open>k\<close>-th delay of
  a backoff policy (other writers may act on the backing store then).
\<close>

record 'w Env =
  Convert_internalversion_ListOptions_To_v1_ListOptions ::
    "internalversion_ListOptions \<Rightarrow> error + ListOptions"
  Sleep :: "wait_Backoff \<Rightarrow> nat \<Rightarrow> 'w \<Rightarrow> 'w"

text \<open>
  The four calls of the delegate, each recorded in the trace.
\<close>

definition delegate_Get ::
  "'w Store \<Rightarrow> ResourceInterface \<Rightarrow> Context \<Rightarrow> string \<Rightarrow> GetOptions \<Rightarrow> string list
   \<Rightarrow> 'w state \<Rightarrow> (error + Unstructured) \<times> 'w state" where
  "delegate_Get s delegate ctx nm options subs st =
     (case clientGet (dynamicClusterClient s) delegate ctx nm options subs (world st) of
        (r, w') \<Rightarrow> (r, \<lparr>world = w', trace = trace st @ [CallGet delegate nm r]\<rparr>))"

definition delegate_Update ::
  "'w Store \<Rightarrow> ResourceInterface \<Rightarrow> Context \<Rightarrow> Unstructured \<Rightarrow> UpdateOptions \<Rightarrow> string list
   \<Rightarrow> 'w state \<Rightarrow> (error + Unstructured) \<times> 'w state" where
  "delegate_Update s delegate ctx obj options subs st =
     (case clientUpdate (dynamicClusterClient s) delegate ctx obj options subs (world st) of
        (r, w') \<Rightarrow> (r, \<lparr>world = w', trace = trace st @ [CallUpdate delegate obj r]\<rparr>))"

definition delegate_List ::
  "'w Store \<Rightarrow> ResourceInterface \<Rightarrow> Context \<Rightarrow> ListOptions
   \<Rightarrow> 'w state \<Rightarrow> (error + Unstructured list) \<times> 'w state" where
  "delegate_List s delegate ctx options st =
     (case clientList (dynamicClusterClient s) delegate ctx options (world st) of
        (r, w') \<Rightarrow> (r, \<lparr>world = w', trace = trace st @ [CallList delegate options r]\<rparr>))"

definition delegate_Watch ::
  "'w Store \<Rightarrow> ResourceInterface \<Rightarrow> Context \<Rightarrow> ListOptions
   \<Rightarrow> 'w state \<Rightarrow> (error + watch_Interface) \<times> 'w state" where
  "delegate_Watch s delegate ctx options st =
     (case clientWatch (dynamicClusterClient s) delegate ctx options (world st) of
        (r, w') \<Rightarrow> (r, \<lparr>world = w', trace = trace st @ [CallWatch delegate options r]\<rparr>))"

subsection \<open>\<^verbatim>\<open>getClientResource\<close>, \<^verbatim>\<open>List\<close>, \<^verbatim>\<open>Get\<close>, \<^verbatim>\<open>Watch\<close>\<close>

definition getClientResource :: "'w Store \<Rightarrow> Context \<Rightarrow> error + ResourceInterface" where
  "getClientResource s ctx =
     (case ValidClusterFrom ctx of
        Inl err \<Rightarrow> Inl err
      | Inr cluster \<Rightarrow>
          (let clusterName = (if Wildcard cluster then logicalcluster_Wildcard else Name cluster)
           in if NamespaceScoped (CreateStrategy s)
              then (case NamespaceFrom ctx of
                      Some namespace \<Rightarrow>
                        Inr \<lparr>ofCluster = clusterName, ofResource = resource s,
                             ofNamespace = Some namespace\<rparr>
                    | None \<Rightarrow> Inl (ErrNoNamespace (resource s)))
              else Inr \<lparr>ofCluster = clusterName, ofResource = resource s,
                        ofNamespace = None\<rparr>))"

definition List ::
  "'w Store \<Rightarrow> 'w Env \<Rightarrow> Context \<Rightarrow> internalversion_ListOptions
   \<Rightarrow> 'w state \<Rightarrow> (error + Unstructured list) \<times> 'w state" where
  "List s env ctx options st =
     (case Convert_internalversion_ListOptions_To_v1_ListOptions env options of
        Inl err \<Rightarrow> (Inl err, st)
      | Inr v1ListOptions \<Rightarrow>
          (case getClientResource s ctx of
             Inl err \<Rightarrow> (Inl err, st)
           | Inr delegate \<Rightarrow>
               delegate_List s delegate ctx
                 (if length (LabelSelector v1ListOptions) = 0
                  then v1ListOptions\<lparr>LabelSelector := toExpression (labelSelector s)\<rparr>
                  else v1ListOptions\<lparr>LabelSelector :=
                         LabelSelector v1ListOptions @ '','' @ toExpression (labelSelector s)\<rparr>)
                 st))"

definition Get ::
  "'w Store \<Rightarrow> Context \<Rightarrow> string \<Rightarrow> GetOptions
   \<Rightarrow> 'w state \<Rightarrow> (error + Unstructured) \<times> 'w state" where
  "Get s ctx nm options st =
     (case getClientResource s ctx of
        Inl err \<Rightarrow> (Inl err, st)
      | Inr delegate \<Rightarrow>
          (case delegate_Get s delegate ctx nm options (subResources s) st of
             (Inl err, st') \<Rightarrow> (Inl err, st')
           | (Inr obj, st') \<Rightarrow>
               if \<not> matches (labelSelector s) obj
               then (Inl (NewNotFound (DefaultQualifiedResource s) nm), st')
               else (Inr obj, st')))"

text \<open>
  \<^verbatim>\<open>Watch\<close>, as far as it is sequential: the conversion, the endpoint, the
  selector, the \<^verbatim>\<open>go\<close> statement (recorded, not run) and the call of the
  delegate. The derived context \<^verbatim>\<open>watchCtx\<close> carries the values of \<open>ctx\<close>; when it
  is cancelled is not part of this embedding.
\<close>

definition Watch ::
  "'w Store \<Rightarrow> 'w Env \<Rightarrow> Context \<Rightarrow> internalversion_ListOptions
   \<Rightarrow> 'w state \<Rightarrow> (error + watch_Interface) \<times> 'w state" where
  "Watch s env ctx options st =
     (case Convert_internalversion_ListOptions_To_v1_ListOptions env options of
        Inl err \<Rightarrow> (Inl err, st)
      | Inr v1ListOptions \<Rightarrow>
          (case getClientResource s ctx of
             Inl err \<Rightarrow> (Inl err, st)
           | Inr delegate \<Rightarrow>
               delegate_Watch s delegate ctx
                 (if length (LabelSelector v1ListOptions) = 0
                  then v1ListOptions\<lparr>LabelSelector := toExpression (labelSelector s)\<rparr>
                  else v1ListOptions\<lparr>LabelSelector :=
                         LabelSelector v1ListOptions @ '','' @ toExpression (labelSelector s)\<rparr>)
                 (st\<lparr>trace := trace st @ [GoStopWaiter]\<rparr>)))"

subsection \<open>\<^verbatim>\<open>Update\<close>\<close>

text \<open>
  The closure \<^verbatim>\<open>doUpdate\<close> of \<^verbatim>\<open>Update\<close>, with the variables it captures as
  arguments. \<^verbatim>\<open>&metav1.GetOptions{}\<close> is the zero value; the deep copies handed
  to \<^verbatim>\<open>updateValidation\<close> are equal to their originals.
\<close>

definition doUpdate ::
  "'w Store \<Rightarrow> ResourceInterface \<Rightarrow> Context \<Rightarrow> string \<Rightarrow> UpdatedObjectInfo
   \<Rightarrow> ValidateObjectUpdateFunc \<Rightarrow> UpdateOptions
   \<Rightarrow> 'w state \<Rightarrow> (error + Unstructured) \<times> 'w state" where
  "doUpdate s delegate ctx nm objInfo updateValidation options st =
     (case Get s ctx nm \<lparr>GetOptions_ResourceVersion = []\<rparr> st of
        (Inl err, st') \<Rightarrow> (Inl err, st')
      | (Inr oldObj, st') \<Rightarrow>
          (case UpdatedObject objInfo ctx (UnstructuredObject oldObj) of
             Inl err \<Rightarrow> (Inl err, st')
           | Inr obj \<Rightarrow>
               (case obj of
                  OtherObject other \<Rightarrow> (Inl (ErrNotUnstructured obj), st')
                | UnstructuredObject unstructuredObj \<Rightarrow>
                    (case PrepareForUpdate (UpdateStrategy s) ctx unstructuredObj oldObj of
                       (prepared, oldPrepared) \<Rightarrow>
                         (let errs = ValidateUpdate (UpdateStrategy s) ctx prepared oldPrepared
                          in if length errs > 0
                             then (Inl (NewInvalid (GroupKind (GroupVersionKind prepared))
                                          (GetName prepared) errs), st')
                             else (case updateValidation ctx (UnstructuredObject prepared)
                                          (UnstructuredObject oldPrepared) of
                                     Some err \<Rightarrow> (Inl err, st')
                                   | None \<Rightarrow>
                                       delegate_Update s delegate ctx prepared options
                                         (subResources s) st'))))))"

text \<open>
  Modelled from the spec: the sleep of the Conflict Retry Driver between two attempts
  (4.5, "sleeps the computed delay"), which is part of client-go and not among the
  sources. The world moves on, and the trace records the sleep.
\<close>

definition backoffSleep ::
  "'w Env \<Rightarrow> wait_Backoff \<Rightarrow> nat \<Rightarrow> error \<Rightarrow> 'w state \<Rightarrow> 'w state" where
  "backoffSleep env backoff k err st =
     \<lparr>world = Sleep env backoff k (world st), trace = trace st @ [BackoffSleep k err]\<rparr>"

text \<open>
  Modelled from the spec: \<^verbatim>\<open>retry.RetryOnConflict\<close> of client-go, the Conflict
  Retry Driver, is not among the sources. The spec (4.5): on entry the unit is executed
  once; if it fails with a version conflict and attempts remain, the driver sleeps the
  computed delay and attempts again, otherwise it is done and reports the last conflict;
  any other failure, and success, end it at once. \<open>fn\<close> is the function handed to the
  driver, acting on the variables it captures (\<open>'c\<close>) and the state; \<open>k\<close> counts the
  attempts made, \<open>n\<close> those that remain after the one being made.
\<close>

fun attempting ::
  "'w Env \<Rightarrow> wait_Backoff \<Rightarrow> nat \<Rightarrow> nat \<Rightarrow> ('c \<times> 'w state \<Rightarrow> error option \<times> 'c \<times> 'w state)
   \<Rightarrow> 'c \<times> 'w state \<Rightarrow> error option \<times> 'c \<times> 'w state" where
  "attempting env backoff k 0 fn cs = fn cs"
| "attempting env backoff k (Suc n) fn cs =
     (case fn cs of
        (None, cs') \<Rightarrow> (None, cs')
      | (Some err, (c, st')) \<Rightarrow>
          if IsConflict err
          then attempting env backoff (Suc k) n fn (c, backoffSleep env backoff k err st')
          else (Some err, (c, st')))"

text \<open>
  Modelled from the spec: the entry of the driver. The first attempt is made in any case
  (4.5, "on entry, executes the read-modify-write unit once"); the maximum number of
  attempts of the Backoff Policy leaves \<^verbatim>\<open>Steps\<close> - 1 more.
\<close>

definition RetryOnConflict ::
  "'w Env \<Rightarrow> wait_Backoff \<Rightarrow> ('c \<times> 'w state \<Rightarrow> error option \<times> 'c \<times> 'w state)
   \<Rightarrow> 'c \<times> 'w state \<Rightarrow> error option \<times> 'c \<times> 'w state" where
  "RetryOnConflict env backoff fn cs = attempting env backoff 0 (Steps backoff - 1) fn cs"

text \<open>
  The two halves of a Go pair (object, error) of which one is nil.
\<close>

definition objOf :: "error + Unstructured \<Rightarrow> Unstructured option" where
  "objOf r = (case r of Inl err \<Rightarrow> None | Inr obj \<Rightarrow> Some obj)"

definition errOf :: "error + Unstructured \<Rightarrow> error option" where
  "errOf r = (case r of Inl err \<Rightarrow> Some err | Inr obj \<Rightarrow> None)"

text \<open>
  \<^verbatim>\<open>Update\<close> returns the Go triple (object, created, error). On the patch path
  the function literal handed to \<^verbatim>\<open>retry.RetryOnConflict\<close> assigns the captured
  variable \<^verbatim>\<open>result\<close> and returns the error.
\<close>

definition Update ::
  "'w Store \<Rightarrow> 'w Env \<Rightarrow> Context \<Rightarrow> string \<Rightarrow> UpdatedObjectInfo \<Rightarrow> ValidateObjectFunc
   \<Rightarrow> ValidateObjectUpdateFunc \<Rightarrow> bool \<Rightarrow> UpdateOptions
   \<Rightarrow> 'w state \<Rightarrow> (Unstructured option \<times> bool \<times> error option) \<times> 'w state" where
  "Update s env ctx nm objInfo createValidation updateValidation forceAllowCreate options st =
     (case getClientResource s ctx of
        Inl err \<Rightarrow> ((None, False, Some err), st)
      | Inr delegate \<Rightarrow>
          if (case RequestInfoFrom ctx of
                None \<Rightarrow> False
              | Some requestInfo \<Rightarrow> Verb requestInfo = ''patch'')
          then (case RetryOnConflict env (patchConflictRetryBackoff s)
                       (\<lambda>(result, st').
                          case doUpdate s delegate ctx nm objInfo updateValidation options st' of
                            (r, st'') \<Rightarrow> (errOf r, (objOf r, st'')))
                       (None, st) of
                  (err, (result, st')) \<Rightarrow> ((result, False, err), st'))
          else (case doUpdate s delegate ctx nm objInfo updateValidation options st of
                  (r, st') \<Rightarrow> ((objOf r, False, errOf r), st')))"

subsection \<open>\<^verbatim>\<open>Create\<close>, \<^verbatim>\<open>Delete\<close>, \<^verbatim>\<open>DeleteCollection\<close>\<close>

text \<open>
  A call either returns its results or panics with a message.
\<close>

datatype 'a outcome = Returns 'a | Panics string

record CreateOptions =
  CreateOptions_DryRun :: "string list"

record DeleteOptions =
  DeleteOptions_DryRun :: "string list"

definition Create ::
  "'w Store \<Rightarrow> Context \<Rightarrow> RuntimeObject \<Rightarrow> ValidateObjectFunc \<Rightarrow> CreateOptions
   \<Rightarrow> 'w state \<Rightarrow> ((error + RuntimeObject) \<times> 'w state) outcome" where
  "Create s ctx obj createValidation options st = Panics ''implement me''"

definition Delete ::
  "'w Store \<Rightarrow> Context \<Rightarrow> string \<Rightarrow> ValidateObjectFunc \<Rightarrow> DeleteOptions
   \<Rightarrow> 'w state \<Rightarrow> ((RuntimeObject option \<times> bool \<times> error option) \<times> 'w state) outcome" where
  "Delete s ctx nm deleteValidation options st = Panics ''implement me''"

definition DeleteCollection ::
  "'w Store \<Rightarrow> Context \<Rightarrow> ValidateObjectFunc \<Rightarrow> DeleteOptions \<Rightarrow> internalversion_ListOptions
   \<Rightarrow> 'w state \<Rightarrow> ((error + RuntimeObject) \<times> 'w state) outcome" where
  "DeleteCollection s ctx deleteValidation options listOptions st = Panics ''implement me''"

subsection \<open>Reading selectors and traces\<close>

text \<open>
  \<^verbatim>\<open>strings.Join\<close>, to say what a comma-joined list of clauses is, and the
  clauses of a Label Scope, one \<open>key=value\<close> for each entry.
\<close>

fun Join :: "string list \<Rightarrow> string \<Rightarrow> string" where
  "Join [] sep = []"
| "Join [x] sep = x"
| "Join (x # y # ys) sep = x @ sep @ Join (y # ys) sep"

definition scopeClauses :: "(string \<times> string) list option \<Rightarrow> string list" where
  "scopeClauses labelSelect =
     (case labelSelect of None \<Rightarrow> [] | Some kvs \<Rightarrow> map (\<lambda>(k, v). k @ ''='' @ v) kvs)"

text \<open>
  Counting the reads and writes of the backing store and the backoff sleeps in a trace.
\<close>

fun isRead :: "event \<Rightarrow> bool" where
  "isRead (CallGet d n r) = True"
| "isRead ev = False"

fun isWrite :: "event \<Rightarrow> bool" where
  "isWrite (CallUpdate d obj r) = True"
| "isWrite ev = False"

fun isSleep :: "event \<Rightarrow> bool" where
  "isSleep (BackoffSleep k err) = True"
| "isSleep ev = False"

definition reads :: "event list \<Rightarrow> nat" where
  "reads t = length (filter isRead t)"

definition writes :: "event list \<Rightarrow> nat" where
  "writes t = length (filter isWrite t)"

definition sleeps :: "event list \<Rightarrow> nat" where
  "sleeps t = length (filter isSleep t)"

text \<open>
  The endpoint an event was sent to, if it is a call of the dynamic client.
\<close>

fun endpointOf :: "event \<Rightarrow> ResourceInterface option" where
  "endpointOf (CallGet d n r) = Some d"
| "endpointOf (CallUpdate d obj r) = Some d"
| "endpointOf (CallList d options r) = Some d"
| "endpointOf (CallWatch d options r) = Some d"
| "endpointOf ev = None"

text \<open>
  The object \<^verbatim>\<open>doUpdate\<close> hands to the backing write when it has read \<open>oldObj\<close>:
  the caller's transform of it, after the strategy's \<^verbatim>\<open>PrepareForUpdate\<close>.
\<close>

definition candidate ::
  "'w Store \<Rightarrow> Context \<Rightarrow> UpdatedObjectInfo \<Rightarrow> Unstructured \<Rightarrow> Unstructured option" where
  "candidate s ctx objInfo oldObj =
     (case UpdatedObject objInfo ctx (UnstructuredObject oldObj) of
        Inr (UnstructuredObject u) \<Rightarrow> Some (fst (PrepareForUpdate (UpdateStrategy s) ctx u oldObj))
      | _ \<Rightarrow> None)"

text \<open>
  A write is fresh when the event just before it is a read of \<open>nm\<close> at the endpoint
  of the write that returned an object inside the Label Scope, and the object written is
  the candidate made from that very object.
\<close>

fun readBefore ::
  "'w Store \<Rightarrow> Context \<Rightarrow> UpdatedObjectInfo \<Rightarrow> string
   \<Rightarrow> event option \<Rightarrow> ResourceInterface \<Rightarrow> Unstructured \<Rightarrow> bool" where
  "readBefore s ctx objInfo nm (Some (CallGet d' n (Inr oldObj))) d obj =
     (d' = d \<and> n = nm \<and> matches (labelSelector s) oldObj
      \<and> candidate s ctx objInfo oldObj = Some obj)"
| "readBefore s ctx objInfo nm prev d obj = False"

fun writeIsFresh ::
  "'w Store \<Rightarrow> Context \<Rightarrow> UpdatedObjectInfo \<Rightarrow> string \<Rightarrow> event option \<Rightarrow> event \<Rightarrow> bool" where
  "writeIsFresh s ctx objInfo nm prev (CallUpdate d obj r) = readBefore s ctx objInfo nm prev d obj"
| "writeIsFresh s ctx objInfo nm prev ev = True"

fun freshWrites ::
  "'w Store \<Rightarrow> Context \<Rightarrow> UpdatedObjectInfo \<Rightarrow> string
   \<Rightarrow> event option \<Rightarrow> event list \<Rightarrow> bool" where
  "freshWrites s ctx objInfo nm prev [] = True"
| "freshWrites s ctx objInfo nm prev (ev # rest) =
     (writeIsFresh s ctx objInfo nm prev ev \<and> freshWrites s ctx objInfo nm (Some ev) rest)"

text \<open>
  An event is sent to \<open>d\<close> when it is no call of the dynamic client, or a call at
  \<open>d\<close>.
\<close>

definition sentTo :: "ResourceInterface \<Rightarrow> event \<Rightarrow> bool" where
  "sentTo d ev = (case endpointOf ev of None \<Rightarrow> True | Some d' \<Rightarrow> d' = d)"

text \<open>
  The test \<^verbatim>\<open>requestInfo != nil && requestInfo.Verb == "patch"\<close> of
  \<^verbatim>\<open>Update\<close>.
\<close>

definition verbIsPatch :: "Context \<Rightarrow> bool" where
  "verbIsPatch ctx =
     (case RequestInfoFrom ctx of None \<Rightarrow> False | Some requestInfo \<Rightarrow> Verb requestInfo = ''patch'')"

text \<open>
  Only conflicts are slept on: every backoff sleep of a trace carries a conflict.
\<close>

fun sleepOnConflict :: "event \<Rightarrow> bool" where
  "sleepOnConflict (BackoffSleep k err) = IsConflict err"
| "sleepOnConflict ev = True"

text \<open>
  The Conflict Retry Driver in the words of the spec, as a relation between the state an
  attempt starts in and the result reported: \<open>unit\<close> is the read-modify-write unit,
  \<open>pause k err\<close> the sleep after attempt \<open>k\<close> failed with the conflict \<open>err\<close>,
  \<open>budget\<close> the maximum number of attempts.
\<close>

inductive retried ::
  "('st \<Rightarrow> (error + 'a) \<times> 'st) \<Rightarrow> (nat \<Rightarrow> error \<Rightarrow> 'st \<Rightarrow> 'st) \<Rightarrow> nat
   \<Rightarrow> nat \<Rightarrow> 'st \<Rightarrow> (error + 'a) \<times> 'st \<Rightarrow> bool"
  for unit :: "'st \<Rightarrow> (error + 'a) \<times> 'st" and pause :: "nat \<Rightarrow> error \<Rightarrow> 'st \<Rightarrow> 'st"
    and budget :: nat where
  succeeded: "unit st = (Inr obj, st') \<Longrightarrow> retried unit pause budget k st (Inr obj, st')"
| failed: "unit st = (Inl err, st') \<Longrightarrow> \<not> IsConflict err
     \<Longrightarrow> retried unit pause budget k st (Inl err, st')"
| exhausted: "unit st = (Inl err, st') \<Longrightarrow> IsConflict err \<Longrightarrow> \<not> Suc k < budget
     \<Longrightarrow> retried unit pause budget k st (Inl err, st')"
| again: "unit st = (Inl err, st') \<Longrightarrow> IsConflict err \<Longrightarrow> Suc k < budget
     \<Longrightarrow> retried unit pause budget (Suc k) (pause k err st') res
     \<Longrightarrow> retried unit pause budget k st res"

text \<open>
  The Label Scope in the words of the spec: a mapping from label key to required exact
  value, where a missing required key counts as non-matching. An object satisfies the
  scope when its labels hold every key of the scope, with the required value; a nil scope
  requires nothing.
\<close>

definition satisfiesLabelScope :: "(string \<times> string) list option \<Rightarrow> Unstructured \<Rightarrow> bool" where
  "satisfiesLabelScope scope obj =
     (case scope of
        None \<Rightarrow> True
      | Some kvs \<Rightarrow> list_all (\<lambda>(k, v). map_of (GetLabels obj) k = Some v) kvs)"

subsection \<open>An adapter to run\<close>

text \<open>
  A backing store of three objects, the world being the list of what it holds: \<open>x\<close>
  inside the Label Scope env=prod, \<open>y\<close> outside it, \<open>z\<close> without labels. A write
  whose resource version is not the stored one is a conflict.
\<close>

definition exGR :: schema_GroupResource where
  "exGR = MkGroupResource ''example.dev'' ''widgets''"

definition exObj :: "string \<Rightarrow> (string \<times> string) list \<Rightarrow> Unstructured" where
  "exObj nm labels =
     \<lparr>GetName = nm, GetNamespace = [], GetLabels = labels, GetResourceVersion = ''1'',
      GroupVersionKind = MkGroupVersionKind ''example.dev'' ''v1'' ''Widget'',
      Object = [(''size'', ''small'')]\<rparr>"

definition exWorld :: "Unstructured list" where
  "exWorld = [exObj ''x'' [(''env'', ''prod'')], exObj ''y'' [(''env'', ''dev'')], exObj ''z'' []]"

definition exClient :: "(Unstructured list) ClusterInterface" where
  "exClient =
     \<lparr>clientGet = (\<lambda>d ctx nm options subs w.
        (case find (\<lambda>obj. GetName obj = nm) w of
           None \<Rightarrow> Inl (NewNotFound exGR nm)
         | Some obj \<Rightarrow> Inr obj, w)),
      clientUpdate = (\<lambda>d ctx obj options subs w.
        (case find (\<lambda>cur. GetName cur = GetName obj) w of
           None \<Rightarrow> (Inl (NewNotFound exGR (GetName obj)), w)
         | Some cur \<Rightarrow>
             if GetResourceVersion cur \<noteq> GetResourceVersion obj
             then (Inl (StatusConflict exGR (GetName obj) ''stale''), w)
             else (Inr (obj\<lparr>GetResourceVersion := GetResourceVersion obj @ ''1''\<rparr>),
                   map (\<lambda>cur. if GetName cur = GetName obj
                               then obj\<lparr>GetResourceVersion := GetResourceVersion obj @ ''1''\<rparr>
                               else cur) w))),
      clientList = (\<lambda>d ctx options w. (Inr w, w)),
      clientWatch = (\<lambda>d ctx options w. (Inr (WatchStream 0), w))\<rparr>"

definition exStore :: "(string \<times> string) list option \<Rightarrow> (Unstructured list) Store" where
  "exStore scope =
     \<lparr>DefaultQualifiedResource = exGR,
      CreateStrategy = \<lparr>NamespaceScoped = False\<rparr>,
      UpdateStrategy = \<lparr>PrepareForUpdate = (\<lambda>ctx obj oldObj. (obj, oldObj)),
                        ValidateUpdate = (\<lambda>ctx obj oldObj. [])\<rparr>,
      resource = MkGroupVersionResource ''example.dev'' ''v1'' ''widgets'',
      dynamicClusterClient = exClient,
      subResources = [],
      patchConflictRetryBackoff = \<lparr>Duration = 10000000, Factor = 1, Cap = 0, Steps = 3\<rparr>,
      labelSelector = scope\<rparr>"

definition exEnv :: "(Unstructured list) Env" where
  "exEnv =
     \<lparr>Convert_internalversion_ListOptions_To_v1_ListOptions = (\<lambda>options.
        Inr \<lparr>LabelSelector = (case internal_LabelSelector options of None \<Rightarrow> [] | Some sel \<Rightarrow> sel),
             FieldSelector = (case internal_FieldSelector options of None \<Rightarrow> [] | Some sel \<Rightarrow> sel),
             ResourceVersion = internal_ResourceVersion options\<rparr>),
      Sleep = (\<lambda>backoff k w. w)\<rparr>"

definition exCtx :: "string \<Rightarrow> bool \<Rightarrow> string \<Rightarrow> Context" where
  "exCtx cluster wildcard verb =
     \<lparr>ValidClusterFrom = Inr \<lparr>Name = cluster, Wildcard = wildcard\<rparr>,
      NamespaceFrom = None,
      RequestInfoFrom = Some \<lparr>Verb = verb\<rparr>\<rparr>"

definition exState :: "(Unstructured list) state" where
  "exState = \<lparr>world = exWorld, trace = []\<rparr>"

definition exListOptions :: "string option \<Rightarrow> internalversion_ListOptions" where
  "exListOptions sel =
     \<lparr>internal_LabelSelector = sel, internal_FieldSelector = None,
      internal_ResourceVersion = []\<rparr>"

text \<open>
  Two transforms: one resizes the object it is given, the other also pins the resource
  version \<open>0\<close>, which the backing store never holds, so that its write conflicts.
\<close>

definition exResize :: UpdatedObjectInfo where
  "exResize =
     \<lparr>UpdatedObject = (\<lambda>ctx oldObj.
        case oldObj of
          UnstructuredObject u \<Rightarrow> Inr (UnstructuredObject (u\<lparr>Object := [(''size'', ''large'')]\<rparr>))
        | OtherObject other \<Rightarrow> Inr oldObj)\<rparr>"

definition exStale :: UpdatedObjectInfo where
  "exStale =
     \<lparr>UpdatedObject = (\<lambda>ctx oldObj.
        case oldObj of
          UnstructuredObject u \<Rightarrow>
            Inr (UnstructuredObject (u\<lparr>GetResourceVersion := ''0'', Object := [(''size'', ''large'')]\<rparr>))
        | OtherObject other \<Rightarrow> Inr oldObj)\<rparr>"

definition exValidate :: ValidateObjectFunc where
  "exValidate = (\<lambda>ctx obj. None)"

definition exValidateUpdate :: ValidateObjectUpdateFunc where
  "exValidateUpdate = (\<lambda>ctx obj oldObj. None)"

definition exUpdateOptions :: UpdateOptions where
  "exUpdateOptions = \<lparr>DryRun = [], FieldManager = []\<rparr>"

section \<open>Properties\<close>

subsection \<open>The selector sent to the backing store\<close>

text \<open>
  Once it holds a clause, the loop of \<^verbatim>\<open>toExpression\<close> appends a comma and a clause
  for each entry; so \<^verbatim>\<open>toExpression\<close> joins the clauses of the scope with commas.
\<close>

lemma toExpression_loop_nonempty:
  "expr \<noteq> [] \<Longrightarrow>
   toExpression_loop kvs expr = expr @ concat (map (\<lambda>(k, v). '','' @ k @ ''='' @ v) kvs)"
  by (induction kvs arbitrary: expr) (auto simp: Sprintf_eq_def)

lemma Join_Cons: "Join (x # xs) '','' = x @ concat (map (\<lambda>c. '','' @ c) xs)"
  by (induction xs arbitrary: x) auto

lemma toExpression_Join: "toExpression labelSelect = Join (scopeClauses labelSelect) '',''"
proof (cases labelSelect)
  case None
  then show ?thesis by (simp add: toExpression_def len_map_def scopeClauses_def)
next
  case (Some kvs)
  show ?thesis
  proof (cases kvs)
    case Nil
    with Some show ?thesis by (simp add: toExpression_def len_map_def scopeClauses_def)
  next
    case (Cons kv rest)
    obtain k v where kv: "kv = (k, v)" by (cases kv)
    have "toExpression_loop rest (k @ ''='' @ v)
          = (k @ ''='' @ v) @ concat (map (\<lambda>(k, v). '','' @ k @ ''='' @ v) rest)"
      by (rule toExpression_loop_nonempty) simp
    moreover have "concat (map (\<lambda>(k, v). '','' @ k @ ''='' @ v) rest)
          = concat (map (\<lambda>c. '','' @ c) (map (\<lambda>(k, v). k @ ''='' @ v) rest))"
      by (simp add: comp_def case_prod_unfold)
    ultimately show ?thesis
      using Some Cons kv
      by (simp add: toExpression_def len_map_def scopeClauses_def Sprintf_eq_def Join_Cons)
  qed
qed

lemma sublist_Join: "c \<in> set cs \<Longrightarrow> sublist c (Join cs sep)"
proof (induction cs sep rule: Join.induct)
  case (1 sep)
  then show ?case by simp
next
  case (2 x sep)
  then show ?case by simp
next
  case (3 x y ys sep)
  show ?case
  proof (cases "c = x")
    case True
    then show ?thesis by simp
  next
    case False
    with 3 have "sublist c (Join (y # ys) sep)" by simp
    then obtain ps ss where "Join (y # ys) sep = ps @ c @ ss"
      by (auto simp: sublist_def)
    then have "Join (x # y # ys) sep = (x @ sep @ ps) @ c @ ss" by simp
    then show ?thesis unfolding sublist_def by blast
  qed
qed

text \<open>
  C3. For a \<^verbatim>\<open>List\<close> or \<^verbatim>\<open>Watch\<close> call that reaches the backing client (the
  options convert to \<open>v1\<close>, the endpoint resolves to \<open>delegate\<close>), the one call of
  the client carries \<open>v1\<close> with this label selector: the comma-joined clauses of the
  Label Scope when the caller's selector is empty, and otherwise the caller's selector, a
  comma, and the comma-joined clauses. Every \<open>key=value\<close> clause of the scope occurs
  in that selector.
\<close>

theorem selector_push_down:
  assumes "Convert_internalversion_ListOptions_To_v1_ListOptions env options = Inr v1"
    and "getClientResource s ctx = Inr delegate"
  shows "(\<exists>r. trace (snd (List s env ctx options st))
            = trace st @ [CallList delegate
                 (v1\<lparr>LabelSelector :=
                    (if LabelSelector v1 = [] then Join (scopeClauses (labelSelector s)) '',''
                     else LabelSelector v1 @ '','' @ Join (scopeClauses (labelSelector s)) '','')\<rparr>) r])
       \<and> (\<exists>r. trace (snd (Watch s env ctx options st))
            = trace st @ [GoStopWaiter, CallWatch delegate
                 (v1\<lparr>LabelSelector :=
                    (if LabelSelector v1 = [] then Join (scopeClauses (labelSelector s)) '',''
                     else LabelSelector v1 @ '','' @ Join (scopeClauses (labelSelector s)) '','')\<rparr>) r])
       \<and> (\<forall>c \<in> set (scopeClauses (labelSelector s)).
            sublist c (if LabelSelector v1 = [] then Join (scopeClauses (labelSelector s)) '',''
                       else LabelSelector v1 @ '','' @ Join (scopeClauses (labelSelector s)) '',''))"
proof (intro conjI ballI)
  show "\<exists>r. trace (snd (List s env ctx options st))
            = trace st @ [CallList delegate
                 (v1\<lparr>LabelSelector :=
                    (if LabelSelector v1 = [] then Join (scopeClauses (labelSelector s)) '',''
                     else LabelSelector v1 @ '','' @ Join (scopeClauses (labelSelector s)) '','')\<rparr>) r]"
    using assms
    by (simp add: List_def delegate_List_def toExpression_Join split: prod.split)
  show "\<exists>r. trace (snd (Watch s env ctx options st))
            = trace st @ [GoStopWaiter, CallWatch delegate
                 (v1\<lparr>LabelSelector :=
                    (if LabelSelector v1 = [] then Join (scopeClauses (labelSelector s)) '',''
                     else LabelSelector v1 @ '','' @ Join (scopeClauses (labelSelector s)) '','')\<rparr>) r]"
    using assms
    by (simp add: Watch_def delegate_Watch_def toExpression_Join split: prod.split)
next
  fix c assume c: "c \<in> set (scopeClauses (labelSelector s))"
  then have j: "sublist c (Join (scopeClauses (labelSelector s)) '','')"
    by (rule sublist_Join)
  then obtain ps ss where "Join (scopeClauses (labelSelector s)) '','' = ps @ c @ ss"
    by (auto simp: sublist_def)
  then have "LabelSelector v1 @ '','' @ Join (scopeClauses (labelSelector s)) '',''
             = (LabelSelector v1 @ '','' @ ps) @ c @ ss" by simp
  then have "sublist c (LabelSelector v1 @ '','' @ Join (scopeClauses (labelSelector s)) '','')"
    unfolding sublist_def by blast
  with j show "sublist c (if LabelSelector v1 = [] then Join (scopeClauses (labelSelector s)) '',''
                       else LabelSelector v1 @ '','' @ Join (scopeClauses (labelSelector s)) '','')"
    by simp
qed

theorem selector_push_down_witness:
  "(\<exists>r. trace (snd (List (exStore (Some [(''env'', ''prod''), (''tier'', ''web'')])) exEnv
                 (exCtx ''root'' False ''list'') (exListOptions (Some ''app=shop'')) exState))
     = [CallList \<lparr>ofCluster = ''root'',
                  ofResource = MkGroupVersionResource ''example.dev'' ''v1'' ''widgets'',
                  ofNamespace = None\<rparr>
          \<lparr>LabelSelector = ''app=shop,env=prod,tier=web'', FieldSelector = [], ResourceVersion = []\<rparr>
          r])
   \<and> sublist ''tier=web'' ''app=shop,env=prod,tier=web''"
proof -
  let ?s = "exStore (Some [(''env'', ''prod''), (''tier'', ''web'')])"
  let ?ctx = "exCtx ''root'' False ''list''"
  let ?d = "\<lparr>ofCluster = ''root'',
             ofResource = MkGroupVersionResource ''example.dev'' ''v1'' ''widgets'',
             ofNamespace = None\<rparr>"
  let ?v1 = "\<lparr>LabelSelector = ''app=shop'', FieldSelector = [], ResourceVersion = []\<rparr>"
  have conv: "Convert_internalversion_ListOptions_To_v1_ListOptions exEnv
                (exListOptions (Some ''app=shop'')) = Inr ?v1"
    by (simp add: exEnv_def exListOptions_def)
  have ep: "getClientResource ?s ?ctx = Inr ?d"
    by (simp add: getClientResource_def exStore_def exCtx_def)
  have sel: "labelSelector ?s = Some [(''env'', ''prod''), (''tier'', ''web'')]"
    by (simp add: exStore_def)
  show ?thesis
    using selector_push_down [OF conv ep, of exState]
    by (simp add: sel scopeClauses_def exState_def)
qed

text \<open>
  C10. With an empty Label Scope (a nil map or a map without entries), a \<^verbatim>\<open>List\<close>
  or \<^verbatim>\<open>Watch\<close> call that reaches the backing client forwards the caller's selector
  with a comma appended when that selector is not empty, and the empty selector when it is
  empty.
\<close>

theorem empty_scope_trailing_comma:
  assumes "labelSelector s = None \<or> labelSelector s = Some []"
    and "Convert_internalversion_ListOptions_To_v1_ListOptions env options = Inr v1"
    and "getClientResource s ctx = Inr delegate"
  shows "(\<exists>r. trace (snd (List s env ctx options st))
            = trace st @ [CallList delegate
                 (v1\<lparr>LabelSelector :=
                    (if LabelSelector v1 = [] then [] else LabelSelector v1 @ '','')\<rparr>) r])
       \<and> (\<exists>r. trace (snd (Watch s env ctx options st))
            = trace st @ [GoStopWaiter, CallWatch delegate
                 (v1\<lparr>LabelSelector :=
                    (if LabelSelector v1 = [] then [] else LabelSelector v1 @ '','')\<rparr>) r])"
proof -
  from assms(1) have "toExpression (labelSelector s) = []"
    by (auto simp: toExpression_def len_map_def)
  then show ?thesis
    using assms(2,3)
    by (simp add: List_def Watch_def delegate_List_def delegate_Watch_def split: prod.split)
qed

theorem empty_scope_trailing_comma_witness:
  "(\<exists>r. trace (snd (List (exStore (Some [])) exEnv (exCtx ''root'' False ''list'')
                        (exListOptions (Some ''app=shop'')) exState))
     = [CallList \<lparr>ofCluster = ''root'',
                  ofResource = MkGroupVersionResource ''example.dev'' ''v1'' ''widgets'',
                  ofNamespace = None\<rparr>
          \<lparr>LabelSelector = ''app=shop,'', FieldSelector = [], ResourceVersion = []\<rparr> r])
   \<and> (\<exists>r. trace (snd (Watch (exStore (Some [])) exEnv (exCtx ''root'' False ''watch'')
                        (exListOptions None) exState))
     = [GoStopWaiter,
        CallWatch \<lparr>ofCluster = ''root'',
                  ofResource = MkGroupVersionResource ''example.dev'' ''v1'' ''widgets'',
                  ofNamespace = None\<rparr>
          \<lparr>LabelSelector = [], FieldSelector = [], ResourceVersion = []\<rparr> r])"
proof -
  let ?s = "exStore (Some [])"
  let ?d = "\<lparr>ofCluster = ''root'',
             ofResource = MkGroupVersionResource ''example.dev'' ''v1'' ''widgets'',
             ofNamespace = None\<rparr>"
  have sel: "labelSelector ?s = None \<or> labelSelector ?s = Some []"
    by (simp add: exStore_def)
  have conv1: "Convert_internalversion_ListOptions_To_v1_ListOptions exEnv
                (exListOptions (Some ''app=shop''))
               = Inr \<lparr>LabelSelector = ''app=shop'', FieldSelector = [], ResourceVersion = []\<rparr>"
    by (simp add: exEnv_def exListOptions_def)
  have conv2: "Convert_internalversion_ListOptions_To_v1_ListOptions exEnv (exListOptions None)
               = Inr \<lparr>LabelSelector = [], FieldSelector = [], ResourceVersion = []\<rparr>"
    by (simp add: exEnv_def exListOptions_def)
  have ep: "getClientResource ?s (exCtx ''root'' False verb) = Inr ?d" for verb
    by (simp add: getClientResource_def exStore_def exCtx_def)
  show ?thesis
    using empty_scope_trailing_comma [OF sel conv1 ep, where st = exState]
      empty_scope_trailing_comma [OF sel conv2 ep, where st = exState]
    by (simp add: exState_def)
qed

subsection \<open>The Label Scope check\<close>

text \<open>
  \<^verbatim>\<open>matches\<close> holds exactly when indexing the object's labels with each key of the
  scope yields the required value. An object that lacks a key whose required value is
  not empty does not match.
\<close>

lemma matches_loop_iff:
  "matches_loop kvs obj \<longleftrightarrow> (\<forall>(k, v) \<in> set kvs. mapIndex (GetLabels obj) k = v)"
  by (induction kvs) (auto split: if_splits)

lemma matches_missing_key:
  "map_of (GetLabels obj) k = None \<Longrightarrow> (k, v) \<in> set kvs \<Longrightarrow> v \<noteq> []
   \<Longrightarrow> \<not> matches (Some kvs) obj"
  by (force simp: matches_def matches_loop_iff mapIndex_def)

text \<open>
  C9, at the input where it fails. The Label Scope requires the key \<open>env\<close> with the empty
  value; the object \<open>z\<close> has no labels at all, so it lacks the required key. Indexing
  its label map yields the empty string, \<^verbatim>\<open>matches\<close> reports a match, and
  \<^verbatim>\<open>Get\<close> returns the object.
\<close>

theorem matches_missing_key_with_empty_value:
  "map_of (GetLabels (exObj ''z'' [])) ''env'' = None
   \<and> matches (Some [(''env'', [])]) (exObj ''z'' [])
   \<and> fst (Get (exStore (Some [(''env'', [])])) (exCtx ''root'' False ''get'') ''z''
            \<lparr>GetOptions_ResourceVersion = []\<rparr> exState) = Inr (exObj ''z'' [])"
  by (simp add: Get_def getClientResource_def exStore_def exCtx_def delegate_Get_def
      exClient_def exState_def exWorld_def exObj_def matches_def mapIndex_def)

subsection \<open>\<^verbatim>\<open>Get\<close> and the Label Scope\<close>

text \<open>
  An object that satisfies the Label Scope passes \<^verbatim>\<open>matches\<close>. The converse
  holds when no required value is empty; with an empty required value \<^verbatim>\<open>matches\<close>
  also passes objects that lack the key.
\<close>

lemma satisfiesLabelScope_matches:
  "satisfiesLabelScope scope obj \<Longrightarrow> matches scope obj"
  by (cases scope)
    (auto simp: satisfiesLabelScope_def matches_def matches_loop_iff mapIndex_def list_all_iff)

lemma matches_satisfiesLabelScope:
  assumes "matches (Some kvs) obj" and "\<forall>(k, v) \<in> set kvs. v \<noteq> []"
  shows "satisfiesLabelScope (Some kvs) obj"
  unfolding satisfiesLabelScope_def option.case list_all_iff
proof
  fix kv assume kv: "kv \<in> set kvs"
  obtain k v where p: "kv = (k, v)" by (cases kv)
  from assms(1) kv p have "mapIndex (GetLabels obj) k = v"
    by (auto simp: matches_def matches_loop_iff)
  moreover from assms(2) kv p have "v \<noteq> []" by auto
  ultimately have "map_of (GetLabels obj) k = Some v"
    by (auto simp: mapIndex_def split: option.splits)
  with p show "case kv of (k, v) \<Rightarrow> map_of (GetLabels obj) k = Some v" by simp
qed

text \<open>
  When the endpoint resolves and the backing store answers \<^verbatim>\<open>Get\<close> with an
  object that \<^verbatim>\<open>matches\<close> rejects, \<^verbatim>\<open>Get\<close> returns the not-found error
  built from the configured \<^verbatim>\<open>DefaultQualifiedResource\<close> and the requested name,
  and not the object. It is the very error \<^verbatim>\<open>Get\<close> returns in any world where
  the backing store reports the name as missing with the not-found error of that resource
  and name.
\<close>

lemma Get_rejected_is_not_found:
  assumes "getClientResource s ctx = Inr delegate"
    and "clientGet (dynamicClusterClient s) delegate ctx nm options (subResources s) (world st)
         = (Inr obj, w)"
    and "\<not> matches (labelSelector s) obj"
  shows "fst (Get s ctx nm options st) = Inl (NewNotFound (DefaultQualifiedResource s) nm)
       \<and> IsNotFound (NewNotFound (DefaultQualifiedResource s) nm)
       \<and> fst (Get s ctx nm options st) \<noteq> Inr obj
       \<and> (\<forall>st2 w2. clientGet (dynamicClusterClient s) delegate ctx nm options (subResources s)
                       (world st2)
                     = (Inl (NewNotFound (DefaultQualifiedResource s) nm), w2)
             \<longrightarrow> fst (Get s ctx nm options st2) = fst (Get s ctx nm options st))"
  using assms by (simp add: Get_def delegate_Get_def NewNotFound_def)

lemma Get_rejected_is_not_found_example:
  "fst (Get (exStore (Some [(''env'', ''prod'')])) (exCtx ''root'' False ''get'') ''y''
          \<lparr>GetOptions_ResourceVersion = []\<rparr> exState)
     = Inl (StatusNotFound (MkGroupResource ''example.dev'' ''widgets'') ''y'')
   \<and> fst (Get (exStore (Some [(''env'', ''prod'')])) (exCtx ''root'' False ''get'') ''y''
          \<lparr>GetOptions_ResourceVersion = []\<rparr> \<lparr>world = [exObj ''x'' [(''env'', ''prod'')]], trace = []\<rparr>)
     = fst (Get (exStore (Some [(''env'', ''prod'')])) (exCtx ''root'' False ''get'') ''y''
          \<lparr>GetOptions_ResourceVersion = []\<rparr> exState)"
proof -
  let ?s = "exStore (Some [(''env'', ''prod'')])"
  let ?ctx = "exCtx ''root'' False ''get''"
  let ?d = "\<lparr>ofCluster = ''root'',
             ofResource = MkGroupVersionResource ''example.dev'' ''v1'' ''widgets'',
             ofNamespace = None\<rparr>"
  let ?o = "\<lparr>GetOptions_ResourceVersion = []\<rparr>"
  let ?st2 = "\<lparr>world = [exObj ''x'' [(''env'', ''prod'')]], trace = []\<rparr>"
  have ep: "getClientResource ?s ?ctx = Inr ?d"
    by (simp add: getClientResource_def exStore_def exCtx_def)
  have rd: "clientGet (dynamicClusterClient ?s) ?d ?ctx ''y'' ?o (subResources ?s) (world exState)
            = (Inr (exObj ''y'' [(''env'', ''dev'')]), exWorld)"
    by (simp add: exStore_def exClient_def exState_def exWorld_def exObj_def)
  have out: "\<not> matches (labelSelector ?s) (exObj ''y'' [(''env'', ''dev'')])"
    by (simp add: exStore_def matches_def mapIndex_def exObj_def)
  have missing: "clientGet (dynamicClusterClient ?s) ?d ?ctx ''y'' ?o (subResources ?s) (world ?st2)
            = (Inl (NewNotFound (DefaultQualifiedResource ?s) ''y''), [exObj ''x'' [(''env'', ''prod'')]])"
    by (simp add: exStore_def exClient_def exObj_def)
  have gr: "NewNotFound (DefaultQualifiedResource ?s) ''y''
            = StatusNotFound (MkGroupResource ''example.dev'' ''widgets'') ''y''"
    by (simp add: NewNotFound_def exStore_def exGR_def)
  from Get_rejected_is_not_found [OF ep rd out]
  have a: "fst (Get ?s ?ctx ''y'' ?o exState) = Inl (NewNotFound (DefaultQualifiedResource ?s) ''y'')"
    and b: "\<And>st2 w2. clientGet (dynamicClusterClient ?s) ?d ?ctx ''y'' ?o (subResources ?s) (world st2)
                     = (Inl (NewNotFound (DefaultQualifiedResource ?s) ''y''), w2)
             \<Longrightarrow> fst (Get ?s ?ctx ''y'' ?o st2) = fst (Get ?s ?ctx ''y'' ?o exState)"
    by blast+
  from a gr b [OF missing] show ?thesis by simp
qed

text \<open>
  C1, at the input where it fails. The Label Scope requires the key \<open>env\<close> with the
  empty value, and the backing store returns the object \<open>z\<close>, which has no labels: its
  labels do not satisfy the scope. \<^verbatim>\<open>Get\<close> returns the object, and not the
  not-found error of the configured resource and the requested name.
\<close>

theorem Get_returns_object_outside_scope:
  "\<not> satisfiesLabelScope (Some [(''env'', [])]) (exObj ''z'' [])
   \<and> fst (Get (exStore (Some [(''env'', [])])) (exCtx ''root'' False ''get'') ''z''
            \<lparr>GetOptions_ResourceVersion = []\<rparr> exState) = Inr (exObj ''z'' [])
   \<and> fst (Get (exStore (Some [(''env'', [])])) (exCtx ''root'' False ''get'') ''z''
            \<lparr>GetOptions_ResourceVersion = []\<rparr> exState)
       \<noteq> Inl (NewNotFound (DefaultQualifiedResource (exStore (Some [(''env'', [])]))) ''z'')"
  by (simp add: satisfiesLabelScope_def Get_def getClientResource_def exStore_def exCtx_def
      delegate_Get_def exClient_def exState_def exWorld_def exObj_def matches_def mapIndex_def)

subsection \<open>The operations that are not implemented\<close>

text \<open>
  C6. \<^verbatim>\<open>Create\<close>, \<^verbatim>\<open>Delete\<close> and \<^verbatim>\<open>DeleteCollection\<close> panic on
  every call, whatever the arguments: no call returns, with an error or without.
\<close>

theorem unimplemented_operations_panic:
  "Create s ctx obj createValidation createOptions st = Panics ''implement me''
   \<and> Delete s' ctx nm deleteValidation deleteOptions st' = Panics ''implement me''
   \<and> DeleteCollection s'' ctx deleteValidation deleteOptions listOptions st'' = Panics ''implement me''
   \<and> (\<forall>r. Create s ctx obj createValidation createOptions st \<noteq> Returns r)
   \<and> (\<forall>r. Delete s' ctx nm deleteValidation deleteOptions st' \<noteq> Returns r)
   \<and> (\<forall>r. DeleteCollection s'' ctx deleteValidation deleteOptions listOptions st'' \<noteq> Returns r)"
  by (simp add: Create_def Delete_def DeleteCollection_def)

subsection \<open>One run of the read-modify-write unit\<close>

text \<open>
  With the endpoint resolved, \<^verbatim>\<open>Get\<close> is one call of the delegate followed by the
  Label Scope check.
\<close>

lemma Get_resolved:
  assumes "getClientResource s ctx = Inr d"
  shows "Get s ctx nm options st =
     (case clientGet (dynamicClusterClient s) d ctx nm options (subResources s) (world st) of
        (g, w) \<Rightarrow>
          ((case g of
              Inl err \<Rightarrow> Inl err
            | Inr obj \<Rightarrow> if matches (labelSelector s) obj then Inr obj
                         else Inl (NewNotFound (DefaultQualifiedResource s) nm)),
           \<lparr>world = w, trace = trace st @ [CallGet d nm g]\<rparr>))"
  using assms by (simp add: Get_def delegate_Get_def split: prod.split sum.split)

lemma reads_append [simp]: "reads (a @ b) = reads a + reads b"
  by (simp add: reads_def)

lemma writes_append [simp]: "writes (a @ b) = writes a + writes b"
  by (simp add: writes_def)

lemma sleeps_append [simp]: "sleeps (a @ b) = sleeps a + sleeps b"
  by (simp add: sleeps_def)

lemma freshWrites_append:
  "freshWrites s ctx objInfo nm prev (a @ b) \<longleftrightarrow>
     freshWrites s ctx objInfo nm prev a
     \<and> freshWrites s ctx objInfo nm (if a = [] then prev else Some (last a)) b"
  by (induction a arbitrary: prev) auto

text \<open>
  One run of \<^verbatim>\<open>doUpdate\<close> reads the backing store once and writes it at most once;
  the write, if there is one, is fresh, and a failed write is the result of the run.
\<close>

lemma doUpdate_attempt:
  assumes ep: "getClientResource s ctx = Inr d"
    and run: "doUpdate s d ctx nm objInfo uv options st = (r, st')"
  shows "\<exists>a. trace st' = trace st @ a \<and> reads a = 1 \<and> writes a \<le> 1 \<and> sleeps a = 0
           \<and> (\<forall>prev. freshWrites s ctx objInfo nm prev a)
           \<and> list_all sleepOnConflict a \<and> list_all (sentTo d) a
           \<and> (\<forall>d' obj e. CallUpdate d' obj (Inl e) \<in> set a \<longrightarrow> r = Inl e)"
proof -
  obtain g w where g: "clientGet (dynamicClusterClient s) d ctx nm \<lparr>GetOptions_ResourceVersion = []\<rparr>
      (subResources s) (world st) = (g, w)"
    by (cases "clientGet (dynamicClusterClient s) d ctx nm \<lparr>GetOptions_ResourceVersion = []\<rparr>
      (subResources s) (world st)")
  let ?st1 = "\<lparr>world = w, trace = trace st @ [CallGet d nm g]\<rparr>"
  have one: "reads [CallGet d nm g] = 1 \<and> writes [CallGet d nm g] \<le> 1 \<and> sleeps [CallGet d nm g] = 0
           \<and> (\<forall>prev. freshWrites s ctx objInfo nm prev [CallGet d nm g])
           \<and> list_all sleepOnConflict [CallGet d nm g] \<and> list_all (sentTo d) [CallGet d nm g]
           \<and> (\<forall>d' obj e. CallUpdate d' obj (Inl e) \<in> set [CallGet d nm g] \<longrightarrow> r = Inl e)"
    by (simp add: reads_def writes_def sleeps_def sentTo_def)
  show ?thesis
  proof (cases "\<exists>obj wr. st' = \<lparr>world = wr, trace = trace ?st1 @ [CallUpdate d obj r]\<rparr>
                  \<and> (\<exists>old. g = Inr old \<and> matches (labelSelector s) old
                        \<and> candidate s ctx objInfo old = Some obj)")
    case True
    then obtain obj wr old where st': "st' = \<lparr>world = wr, trace = trace ?st1 @ [CallUpdate d obj r]\<rparr>"
      and old: "g = Inr old" "matches (labelSelector s) old" "candidate s ctx objInfo old = Some obj"
      by blast
    have "trace st' = trace st @ [CallGet d nm (Inr old), CallUpdate d obj r]"
      using st' old by simp
    moreover have "reads [CallGet d nm (Inr old), CallUpdate d obj r] = 1"
      "writes [CallGet d nm (Inr old), CallUpdate d obj r] \<le> 1"
      "sleeps [CallGet d nm (Inr old), CallUpdate d obj r] = 0"
      "\<forall>prev. freshWrites s ctx objInfo nm prev [CallGet d nm (Inr old), CallUpdate d obj r]"
      "list_all sleepOnConflict [CallGet d nm (Inr old), CallUpdate d obj r]"
      "list_all (sentTo d) [CallGet d nm (Inr old), CallUpdate d obj r]"
      "\<forall>d' obj' e. CallUpdate d' obj' (Inl e) \<in> set [CallGet d nm (Inr old), CallUpdate d obj r]
          \<longrightarrow> r = Inl e"
      using old by (simp_all add: reads_def writes_def sleeps_def sentTo_def)
    ultimately show ?thesis by blast
  next
    case False
    have "st' = ?st1"
      using run False g
      by (auto simp: doUpdate_def Get_resolved [OF ep] delegate_Update_def candidate_def Let_def
          split: sum.splits prod.splits RuntimeObject.splits if_splits option.splits)
    then have "trace st' = trace st @ [CallGet d nm g]" by simp
    with one show ?thesis by blast
  qed
qed

subsection \<open>The retry driver running the unit\<close>

text \<open>
  Appending a backoff sleep and the trace of the later attempts to the trace of one
  attempt keeps what is counted and checked on traces.
\<close>

lemma retry_tail:
  assumes a: "reads a = 1" "writes a \<le> 1" "sleeps a = 0"
      "\<forall>prev. freshWrites s ctx objInfo nm prev a" "list_all sleepOnConflict a"
      "list_all (sentTo d) a"
    and t: "reads t = sleeps t + 1" "sleeps t \<le> n" "writes t \<le> reads t"
      "\<forall>prev. freshWrites s ctx objInfo nm prev t" "list_all sleepOnConflict t"
      "list_all (sentTo d) t"
    and e: "IsConflict e"
  shows "reads (a @ BackoffSleep k e # t) = sleeps (a @ BackoffSleep k e # t) + 1"
    and "sleeps (a @ BackoffSleep k e # t) \<le> Suc n"
    and "writes (a @ BackoffSleep k e # t) \<le> reads (a @ BackoffSleep k e # t)"
    and "\<forall>prev. freshWrites s ctx objInfo nm prev (a @ BackoffSleep k e # t)"
    and "list_all sleepOnConflict (a @ BackoffSleep k e # t)"
    and "list_all (sentTo d) (a @ BackoffSleep k e # t)"
    and "sleeps t = n \<Longrightarrow> sleeps (a @ BackoffSleep k e # t) = Suc n"
proof -
  have c: "reads (BackoffSleep k e # t) = reads t" "sleeps (BackoffSleep k e # t) = Suc (sleeps t)"
    "writes (BackoffSleep k e # t) = writes t"
    by (simp_all add: reads_def sleeps_def writes_def)
  show "reads (a @ BackoffSleep k e # t) = sleeps (a @ BackoffSleep k e # t) + 1"
    using a t c by simp
  show "sleeps (a @ BackoffSleep k e # t) \<le> Suc n" using a t c by simp
  show "writes (a @ BackoffSleep k e # t) \<le> reads (a @ BackoffSleep k e # t)"
    using a t c by simp
  show "\<forall>prev. freshWrites s ctx objInfo nm prev (a @ BackoffSleep k e # t)"
    using a(4) t(4) by (simp add: freshWrites_append)
  show "list_all sleepOnConflict (a @ BackoffSleep k e # t)" using a t e by simp
  show "list_all (sentTo d) (a @ BackoffSleep k e # t)" using a t by (simp add: sentTo_def)
  show "sleeps t = n \<Longrightarrow> sleeps (a @ BackoffSleep k e # t) = Suc n" using a c by simp
qed

lemma attempting_doUpdate:
  assumes ep: "getClientResource s ctx = Inr d"
  shows "attempting env backoff k n
           (\<lambda>(result, st'). case doUpdate s d ctx nm objInfo uv options st' of
                               (r, st'') \<Rightarrow> (errOf r, (objOf r, st'')))
           (c, st) = (err, (res, st'))
     \<Longrightarrow> n = budget - Suc k
     \<Longrightarrow> \<exists>t r. trace st' = trace st @ t \<and> err = errOf r \<and> res = objOf r
            \<and> retried (doUpdate s d ctx nm objInfo uv options) (backoffSleep env backoff)
                 budget k st (r, st')
            \<and> reads t = sleeps t + 1 \<and> sleeps t \<le> n \<and> writes t \<le> reads t
            \<and> (\<forall>prev. freshWrites s ctx objInfo nm prev t)
            \<and> list_all sleepOnConflict t \<and> list_all (sentTo d) t
            \<and> ((\<exists>e. err = Some e \<and> IsConflict e) \<longrightarrow> sleeps t = n)"
proof (induction n arbitrary: k c st)
  case 0
  obtain r st1 where run: "doUpdate s d ctx nm objInfo uv options st = (r, st1)"
    by (cases "doUpdate s d ctx nm objInfo uv options st")
  from "0.prems"(1) run have res: "err = errOf r" "res = objOf r" "st' = st1" by simp_all
  from doUpdate_attempt [OF ep run] obtain a where a: "trace st1 = trace st @ a" "reads a = 1"
    "writes a \<le> 1" "sleeps a = 0" "\<forall>prev. freshWrites s ctx objInfo nm prev a"
    "list_all sleepOnConflict a" "list_all (sentTo d) a" by blast
  have "retried (doUpdate s d ctx nm objInfo uv options) (backoffSleep env backoff)
          budget k st (r, st1)"
  proof (cases r)
    case (Inr obj)
    with run show ?thesis by (auto intro: retried.succeeded)
  next
    case (Inl e)
    show ?thesis
    proof (cases "IsConflict e")
      case True
      moreover from "0.prems"(2) have "\<not> Suc k < budget" by simp
      ultimately show ?thesis using run Inl by (auto intro: retried.exhausted)
    next
      case False
      with run Inl show ?thesis by (auto intro: retried.failed)
    qed
  qed
  with a res show ?case by auto
next
  case (Suc n)
  obtain r st1 where run: "doUpdate s d ctx nm objInfo uv options st = (r, st1)"
    by (cases "doUpdate s d ctx nm objInfo uv options st")
  from doUpdate_attempt [OF ep run] obtain a where a: "trace st1 = trace st @ a" "reads a = 1"
    "writes a \<le> 1" "sleeps a = 0" "\<forall>prev. freshWrites s ctx objInfo nm prev a"
    "list_all sleepOnConflict a" "list_all (sentTo d) a" by blast
  show ?case
  proof (cases r)
    case (Inr obj)
    with Suc.prems(1) run have res: "err = errOf r" "res = objOf r" "st' = st1"
      by (simp_all add: errOf_def objOf_def)
    have "retried (doUpdate s d ctx nm objInfo uv options) (backoffSleep env backoff)
          budget k st (r, st1)"
      using run Inr by (auto intro: retried.succeeded)
    moreover have "\<not> (\<exists>e. err = Some e \<and> IsConflict e)"
      using res Inr by (simp add: errOf_def)
    ultimately show ?thesis using a res by auto
  next
    case (Inl e)
    show ?thesis
    proof (cases "IsConflict e")
      case False
      with Suc.prems(1) run Inl have res: "err = errOf r" "res = objOf r" "st' = st1"
        by (simp_all add: errOf_def objOf_def)
      have "retried (doUpdate s d ctx nm objInfo uv options) (backoffSleep env backoff)
          budget k st (r, st1)"
        using run Inl False by (auto intro: retried.failed)
      moreover have "\<not> (\<exists>e. err = Some e \<and> IsConflict e)"
        using res Inl False by (simp add: errOf_def)
      ultimately show ?thesis using a res by auto
    next
      case True
      let ?st2 = "backoffSleep env backoff k e st1"
      from Suc.prems(1) run Inl True
      have rec: "attempting env backoff (Suc k) n
           (\<lambda>(result, st'). case doUpdate s d ctx nm objInfo uv options st' of
                               (r, st'') \<Rightarrow> (errOf r, (objOf r, st'')))
           (objOf r, ?st2) = (err, (res, st'))"
        by (simp add: errOf_def)
      from Suc.prems(2) have n: "n = budget - Suc (Suc k)" and lt: "Suc k < budget" by simp_all
      from Suc.IH [OF rec n] obtain t r' where t: "trace st' = trace ?st2 @ t" "err = errOf r'"
        "res = objOf r'"
        "retried (doUpdate s d ctx nm objInfo uv options) (backoffSleep env backoff)
           budget (Suc k) ?st2 (r', st')"
        "reads t = sleeps t + 1" "sleeps t \<le> n" "writes t \<le> reads t"
        "\<forall>prev. freshWrites s ctx objInfo nm prev t"
        "list_all sleepOnConflict t" "list_all (sentTo d) t"
        "(\<exists>e. err = Some e \<and> IsConflict e) \<longrightarrow> sleeps t = n" by blast
      have tr: "trace st' = trace st @ (a @ BackoffSleep k e # t)"
        using t(1) a(1) by (simp add: backoffSleep_def)
      have rt: "retried (doUpdate s d ctx nm objInfo uv options) (backoffSleep env backoff)
           budget k st (r', st')"
        using run Inl True lt t(4) by (auto intro: retried.again)
      note tail = retry_tail [OF a(2-7) t(5-10) True, of k]
      have "(\<exists>e. err = Some e \<and> IsConflict e) \<longrightarrow> sleeps (a @ BackoffSleep k e # t) = Suc n"
        using t(11) tail(7) by blast
      with tr rt t(2,3) tail(1-6) show ?thesis by blast
    qed
  qed
qed

subsection \<open>\<^verbatim>\<open>Update\<close>\<close>

text \<open>
  The three paths of \<^verbatim>\<open>Update\<close>: the endpoint does not resolve; the verb is not
  patch; the verb is patch.
\<close>

lemma Update_unresolved:
  "getClientResource s ctx = Inl e
   \<Longrightarrow> Update s env ctx nm objInfo cv uv force options st = ((None, False, Some e), st)"
  by (simp add: Update_def)

lemma Update_full:
  "getClientResource s ctx = Inr d \<Longrightarrow> \<not> verbIsPatch ctx
   \<Longrightarrow> Update s env ctx nm objInfo cv uv force options st =
       (case doUpdate s d ctx nm objInfo uv options st of
          (r, st') \<Rightarrow> ((objOf r, False, errOf r), st'))"
  by (simp add: Update_def verbIsPatch_def)

lemma Update_patch:
  "getClientResource s ctx = Inr d \<Longrightarrow> verbIsPatch ctx
   \<Longrightarrow> Update s env ctx nm objInfo cv uv force options st =
       (case attempting env (patchConflictRetryBackoff s) 0
               (Steps (patchConflictRetryBackoff s) - 1)
               (\<lambda>(result, st'). case doUpdate s d ctx nm objInfo uv options st' of
                                   (r, st'') \<Rightarrow> (errOf r, (objOf r, st'')))
               (None, st) of
          (err, (result, st')) \<Rightarrow> ((result, False, err), st'))"
  by (simp add: Update_def verbIsPatch_def RetryOnConflict_def)

text \<open>
  The adapter of the examples resolves every context to the endpoint of its cluster, or
  of the wildcard; and what it does on a few calls.
\<close>

lemma ex_resolved:
  "getClientResource (exStore scope) (exCtx c w verb)
     = Inr \<lparr>ofCluster = (if w then ''*'' else c),
            ofResource = MkGroupVersionResource ''example.dev'' ''v1'' ''widgets'',
            ofNamespace = None\<rparr>"
  by (simp add: getClientResource_def exStore_def exCtx_def logicalcluster_Wildcard_def)

lemma ex_full_update_stale:
  "fst (Update (exStore (Some [(''env'', ''prod'')])) exEnv (exCtx ''root'' False ''update'') ''x''
          exStale exValidate exValidateUpdate False exUpdateOptions exState)
     = (None, False, Some (StatusConflict exGR ''x'' ''stale''))"
  by (simp add: Update_def getClientResource_def Get_def delegate_Get_def exCtx_def doUpdate_def
      logicalcluster_Wildcard_def delegate_Update_def exStore_def exClient_def exState_def
      exWorld_def exObj_def exStale_def exValidateUpdate_def matches_def mapIndex_def
      objOf_def errOf_def)


lemma ex_update_missing:
  "fst (Update (exStore (Some [(''env'', ''prod'')])) exEnv (exCtx ''root'' False ''update'') ''nope''
          exResize exValidate exValidateUpdate True exUpdateOptions exState)
     = (None, False, Some (StatusNotFound exGR ''nope''))"
  by (simp add: Update_def getClientResource_def Get_def delegate_Get_def exCtx_def doUpdate_def
      logicalcluster_Wildcard_def delegate_Update_def exStore_def exClient_def exState_def
      exWorld_def exObj_def exResize_def exValidateUpdate_def matches_def mapIndex_def
      objOf_def errOf_def NewNotFound_def)

lemma ex_wildcard_Get:
  "Get (exStore (Some [(''env'', ''prod'')])) (exCtx ''root'' True ''get'') ''x''
          \<lparr>GetOptions_ResourceVersion = []\<rparr> exState
     = (Inr (exObj ''x'' [(''env'', ''prod'')]),
        \<lparr>world = exWorld,
         trace = [CallGet \<lparr>ofCluster = ''*'',
                    ofResource = MkGroupVersionResource ''example.dev'' ''v1'' ''widgets'',
                    ofNamespace = None\<rparr> ''x'' (Inr (exObj ''x'' [(''env'', ''prod'')]))]\<rparr>)"
  by (simp add: Get_def getClientResource_def delegate_Get_def exCtx_def
      logicalcluster_Wildcard_def exStore_def exClient_def exState_def
      exWorld_def exObj_def matches_def mapIndex_def)

lemma ex_wildcard_Update:
  "fst (Update (exStore (Some [(''env'', ''prod'')])) exEnv (exCtx ''root'' True ''update'') ''x''
          exResize exValidate exValidateUpdate False exUpdateOptions exState)
     = (Some ((exObj ''x'' [(''env'', ''prod'')])
               \<lparr>GetResourceVersion := ''11'', Object := [(''size'', ''large'')]\<rparr>),
        False, None)"
  by (simp add: Update_def getClientResource_def Get_def delegate_Get_def exCtx_def doUpdate_def
      logicalcluster_Wildcard_def delegate_Update_def exStore_def exClient_def exState_def
      exWorld_def exObj_def exResize_def exValidateUpdate_def matches_def mapIndex_def
      objOf_def errOf_def)

text \<open>
  C4. An \<^verbatim>\<open>Update\<close> whose verb is not patch (or whose context has no request
  info) is one run of \<^verbatim>\<open>doUpdate\<close>: it returns the object and error of that run
  and false for created, it reads the backing store exactly once, writes it at most once
  and never sleeps, and an error the backing write returns (a conflict among them) is the
  error it returns, with no object.
\<close>

theorem full_update_runs_once:
  assumes ep: "getClientResource s ctx = Inr delegate"
    and np: "\<not> verbIsPatch ctx"
    and up: "Update s env ctx nm objInfo createValidation updateValidation forceAllowCreate
               options st = ((obj, created, err), st')"
  shows "\<exists>t r. trace st' = trace st @ t
           \<and> doUpdate s delegate ctx nm objInfo updateValidation options st = (r, st')
           \<and> obj = objOf r \<and> err = errOf r \<and> created = False
           \<and> reads t = 1 \<and> writes t \<le> 1 \<and> sleeps t = 0
           \<and> (\<forall>d written e. CallUpdate d written (Inl e) \<in> set t
                 \<longrightarrow> err = Some e \<and> obj = None)"
proof -
  obtain r st1 where run: "doUpdate s delegate ctx nm objInfo updateValidation options st = (r, st1)"
    by (cases "doUpdate s delegate ctx nm objInfo updateValidation options st")
  from up run have res: "obj = objOf r" "err = errOf r" "created = False" "st' = st1"
    by (simp_all add: Update_full [OF ep np])
  from doUpdate_attempt [OF ep run] obtain a where a: "trace st1 = trace st @ a" "reads a = 1"
    "writes a \<le> 1" "sleeps a = 0"
    "\<forall>d' written e. CallUpdate d' written (Inl e) \<in> set a \<longrightarrow> r = Inl e" by blast
  from a(5) res have "\<forall>d written e. CallUpdate d written (Inl e) \<in> set a
                 \<longrightarrow> err = Some e \<and> obj = None"
    by (auto simp: errOf_def objOf_def)
  with a run res show ?thesis by blast
qed

theorem full_update_runs_once_witness:
  "\<exists>st'. Update (exStore (Some [(''env'', ''prod'')])) exEnv (exCtx ''root'' False ''update'') ''x''
            exStale exValidate exValidateUpdate False exUpdateOptions exState
          = ((None, False, Some (StatusConflict exGR ''x'' ''stale'')), st')
        \<and> reads (trace st') = 1 \<and> writes (trace st') \<le> 1 \<and> sleeps (trace st') = 0"
proof -
  let ?s = "exStore (Some [(''env'', ''prod'')])"
  let ?ctx = "exCtx ''root'' False ''update''"
  have np: "\<not> verbIsPatch ?ctx" by (simp add: verbIsPatch_def exCtx_def)
  obtain st' where up: "Update ?s exEnv ?ctx ''x'' exStale exValidate exValidateUpdate False
      exUpdateOptions exState = ((None, False, Some (StatusConflict exGR ''x'' ''stale'')), st')"
    using ex_full_update_stale by (metis prod.collapse)
  from full_update_runs_once [OF ex_resolved np up]
  have "reads (trace st') = 1 \<and> writes (trace st') \<le> 1 \<and> sleeps (trace st') = 0"
    by (auto simp: exState_def)
  with up show ?thesis by blast
qed



text \<open>
  C8. \<^verbatim>\<open>Update\<close> does not depend on \<^verbatim>\<open>forceAllowCreate\<close>: two calls that
  differ in the flag only return the same results and leave the same state. The created
  result is false. Every write of the backing store comes right after a read of the
  requested name at the same endpoint that returned an object inside the Label Scope, and
  writes the candidate made from it: a name the backing store does not return is never
  written.
\<close>

theorem Update_ignores_forceAllowCreate:
  "Update s env ctx nm objInfo createValidation updateValidation force1 options st
     = Update s env ctx nm objInfo createValidation updateValidation force2 options st
   \<and> fst (snd (fst (Update s env ctx nm objInfo createValidation updateValidation force1
                      options st))) = False
   \<and> (\<exists>t. trace (snd (Update s env ctx nm objInfo createValidation updateValidation force1
                         options st)) = trace st @ t
          \<and> freshWrites s ctx objInfo nm None t)"
proof (intro conjI)
  show "Update s env ctx nm objInfo createValidation updateValidation force1 options st
     = Update s env ctx nm objInfo createValidation updateValidation force2 options st"
    by (simp add: Update_def)
  show "fst (snd (fst (Update s env ctx nm objInfo createValidation updateValidation force1
                      options st))) = False"
    by (simp add: Update_def split: sum.split prod.split)
  obtain obj created err st' where up:
    "Update s env ctx nm objInfo createValidation updateValidation force1 options st
       = ((obj, created, err), st')"
    by (metis surj_pair)
  show "\<exists>t. trace (snd (Update s env ctx nm objInfo createValidation updateValidation force1
                         options st)) = trace st @ t
          \<and> freshWrites s ctx objInfo nm None t"
  proof (cases "getClientResource s ctx")
    case (Inl e)
    then show ?thesis by (simp add: Update_unresolved)
  next
    case (Inr d)
    show ?thesis
    proof (cases "verbIsPatch ctx")
      case True
      from up have run: "attempting env (patchConflictRetryBackoff s) 0
           (Steps (patchConflictRetryBackoff s) - 1)
           (\<lambda>(result, st'). case doUpdate s d ctx nm objInfo updateValidation options st' of
                               (r, st'') \<Rightarrow> (errOf r, (objOf r, st'')))
           (None, st) = (err, (obj, st'))"
        by (simp add: Update_patch [OF Inr True] split: prod.splits)
      have n: "Steps (patchConflictRetryBackoff s) - 1
               = Steps (patchConflictRetryBackoff s) - Suc 0" by simp
      from attempting_doUpdate [OF Inr run n] up show ?thesis by auto
    next
      case False
      obtain r st1 where run: "doUpdate s d ctx nm objInfo updateValidation options st = (r, st1)"
        by (cases "doUpdate s d ctx nm objInfo updateValidation options st")
      from up run have "st' = st1" by (simp add: Update_full [OF Inr False])
      with doUpdate_attempt [OF Inr run] up show ?thesis by auto
    qed
  qed
qed

theorem Update_ignores_forceAllowCreate_witness:
  "Update (exStore (Some [(''env'', ''prod'')])) exEnv (exCtx ''root'' False ''update'') ''nope''
       exResize exValidate exValidateUpdate True exUpdateOptions exState
     = Update (exStore (Some [(''env'', ''prod'')])) exEnv (exCtx ''root'' False ''update'') ''nope''
       exResize exValidate exValidateUpdate False exUpdateOptions exState
   \<and> fst (Update (exStore (Some [(''env'', ''prod'')])) exEnv (exCtx ''root'' False ''update'') ''nope''
       exResize exValidate exValidateUpdate False exUpdateOptions exState)
     = (None, False, Some (StatusNotFound exGR ''nope''))"
  using Update_ignores_forceAllowCreate [of "exStore (Some [(''env'', ''prod'')])" exEnv
      "exCtx ''root'' False ''update''" "''nope''" exResize exValidate exValidateUpdate True
      exUpdateOptions exState False] ex_update_missing
  by simp

subsection \<open>The wildcard cluster\<close>

text \<open>
  C7, at an input where it fails. The context carries the wildcard cluster; \<^verbatim>\<open>Get\<close>
  is not refused: it reads \<open>x\<close> at the endpoint of the cluster \<open>*\<close> and returns it,
  and \<^verbatim>\<open>Update\<close> writes it there.
\<close>

theorem wildcard_Get_and_Update_are_forwarded:
  "Wildcard \<lparr>Name = ''root'', Wildcard = True\<rparr>
   \<and> ValidClusterFrom (exCtx ''root'' True ''get'') = Inr \<lparr>Name = ''root'', Wildcard = True\<rparr>
   \<and> Get (exStore (Some [(''env'', ''prod'')])) (exCtx ''root'' True ''get'') ''x''
          \<lparr>GetOptions_ResourceVersion = []\<rparr> exState
     = (Inr (exObj ''x'' [(''env'', ''prod'')]),
        \<lparr>world = exWorld,
         trace = [CallGet \<lparr>ofCluster = ''*'',
                    ofResource = MkGroupVersionResource ''example.dev'' ''v1'' ''widgets'',
                    ofNamespace = None\<rparr> ''x'' (Inr (exObj ''x'' [(''env'', ''prod'')]))]\<rparr>)
   \<and> fst (Update (exStore (Some [(''env'', ''prod'')])) exEnv (exCtx ''root'' True ''update'') ''x''
          exResize exValidate exValidateUpdate False exUpdateOptions exState)
     = (Some ((exObj ''x'' [(''env'', ''prod'')])
               \<lparr>GetResourceVersion := ''11'', Object := [(''size'', ''large'')]\<rparr>),
        False, None)"
  using ex_wildcard_Get ex_wildcard_Update by (simp add: exCtx_def)

text \<open>
  C7, amended. When the context carries a valid cluster and the endpoint resolves, the
  endpoint is that of \<^verbatim>\<open>logicalcluster.Wildcard\<close> for a wildcard cluster and of the
  cluster's own name otherwise; and \<^verbatim>\<open>List\<close>, \<^verbatim>\<open>Watch\<close>, \<^verbatim>\<open>Get\<close>
  and \<^verbatim>\<open>Update\<close> alike send every call of the dynamic client to that endpoint,
  \<^verbatim>\<open>Get\<close> and \<^verbatim>\<open>Update\<close> reading the backing store there at least once.
\<close>

theorem wildcard_resolves_for_every_operation:
  assumes vc: "ValidClusterFrom ctx = Inr cluster"
    and ep: "getClientResource s ctx = Inr delegate"
  shows "ofCluster delegate = (if Wildcard cluster then logicalcluster_Wildcard else Name cluster)
     \<and> (\<exists>t. trace (snd (List s env ctx listOptions st)) = trace st @ t
            \<and> list_all (sentTo delegate) t)
     \<and> (\<exists>t. trace (snd (Watch s env ctx listOptions st)) = trace st @ t
            \<and> list_all (sentTo delegate) t)
     \<and> (\<exists>t. trace (snd (Get s ctx nm getOptions st)) = trace st @ t
            \<and> reads t = 1 \<and> list_all (sentTo delegate) t)
     \<and> (\<exists>t. trace (snd (Update s env ctx nm objInfo createValidation updateValidation
                           forceAllowCreate options st)) = trace st @ t
            \<and> 1 \<le> reads t \<and> list_all (sentTo delegate) t)"
proof (intro conjI)
  show "ofCluster delegate = (if Wildcard cluster then logicalcluster_Wildcard else Name cluster)"
    using vc ep by (auto simp: getClientResource_def Let_def split: if_splits option.splits)
  show "\<exists>t. trace (snd (List s env ctx listOptions st)) = trace st @ t
            \<and> list_all (sentTo delegate) t"
    using ep by (simp add: List_def delegate_List_def sentTo_def split: sum.split prod.split)
  show "\<exists>t. trace (snd (Watch s env ctx listOptions st)) = trace st @ t
            \<and> list_all (sentTo delegate) t"
    using ep by (simp add: Watch_def delegate_Watch_def sentTo_def split: sum.split prod.split)
  show "\<exists>t. trace (snd (Get s ctx nm getOptions st)) = trace st @ t
            \<and> reads t = 1 \<and> list_all (sentTo delegate) t"
    by (simp add: Get_resolved [OF ep] sentTo_def reads_def split: prod.split)
  obtain obj created err st' where up:
    "Update s env ctx nm objInfo createValidation updateValidation forceAllowCreate options st
       = ((obj, created, err), st')"
    by (metis surj_pair)
  show "\<exists>t. trace (snd (Update s env ctx nm objInfo createValidation updateValidation
                           forceAllowCreate options st)) = trace st @ t
            \<and> 1 \<le> reads t \<and> list_all (sentTo delegate) t"
  proof (cases "verbIsPatch ctx")
    case True
    from up have run: "attempting env (patchConflictRetryBackoff s) 0
           (Steps (patchConflictRetryBackoff s) - 1)
           (\<lambda>(result, st'). case doUpdate s delegate ctx nm objInfo updateValidation options st' of
                               (r, st'') \<Rightarrow> (errOf r, (objOf r, st'')))
           (None, st) = (err, (obj, st'))"
      by (simp add: Update_patch [OF ep True] split: prod.splits)
    have n: "Steps (patchConflictRetryBackoff s) - 1
               = Steps (patchConflictRetryBackoff s) - Suc 0" by simp
    from attempting_doUpdate [OF ep run n] obtain t where
      "trace st' = trace st @ t" "reads t = sleeps t + 1" "list_all (sentTo delegate) t"
      by blast
    with up show ?thesis by auto
  next
    case False
    obtain r st1 where run: "doUpdate s delegate ctx nm objInfo updateValidation options st = (r, st1)"
      by (cases "doUpdate s delegate ctx nm objInfo updateValidation options st")
    from up run have "st' = st1" by (simp add: Update_full [OF ep False])
    with doUpdate_attempt [OF ep run] up show ?thesis by auto
  qed
qed

theorem wildcard_resolves_for_every_operation_witness:
  "\<exists>t. trace (snd (Get (exStore (Some [(''env'', ''prod'')])) (exCtx ''root'' True ''get'') ''x''
                     \<lparr>GetOptions_ResourceVersion = []\<rparr> exState)) = t
       \<and> reads t = 1
       \<and> list_all (sentTo \<lparr>ofCluster = ''*'',
                    ofResource = MkGroupVersionResource ''example.dev'' ''v1'' ''widgets'',
                    ofNamespace = None\<rparr>) t"
proof -
  let ?s = "exStore (Some [(''env'', ''prod'')])"
  let ?ctx = "exCtx ''root'' True ''get''"
  let ?d = "\<lparr>ofCluster = ''*'',
             ofResource = MkGroupVersionResource ''example.dev'' ''v1'' ''widgets'',
             ofNamespace = None\<rparr>"
  have vc: "ValidClusterFrom ?ctx = Inr \<lparr>Name = ''root'', Wildcard = True\<rparr>"
    by (simp add: exCtx_def)
  have ep: "getClientResource ?s ?ctx = Inr ?d"
    by (simp add: ex_resolved)
  from wildcard_resolves_for_every_operation [OF vc ep, where st = exState and nm = "''x''"
      and getOptions = "\<lparr>GetOptions_ResourceVersion = []\<rparr>"]
  have "\<exists>t. trace (snd (Get ?s ?ctx ''x'' \<lparr>GetOptions_ResourceVersion = []\<rparr> exState))
           = trace exState @ t \<and> reads t = 1 \<and> list_all (sentTo ?d) t"
    by blast
  then show ?thesis by (simp add: exState_def)
qed

end
